theory Spec2Isabelle
  imports Complex_Main "HOL-Library.Word" "HOL-Library.Sublist"
begin

section \<open>JavaScript strings and values\<close>

text \<open>
  A JavaScript string is a sequence of UTF-16 code units; \<open>length\<close>, \<open>substring\<close>,
  \<open>split\<close> and \<open>includes\<close> all count code units. String literals of
  \<^verbatim>\<open>scripts/check-minimax-balance.js\<close> that are plain ASCII are written with \<open>ascii\<close>,
  the others by their code units.
\<close>

type_synonym jsstring = "16 word list"

definition ascii :: "string \<Rightarrow> jsstring" where
  "ascii s = map of_char s"

text \<open>\<^verbatim>\<open>text.includes(pat)\<close>: \<open>pat\<close> occurs in \<open>text\<close> as a contiguous run.\<close>

fun js_includes :: "jsstring \<Rightarrow> jsstring \<Rightarrow> bool" where
  "js_includes [] pat = (pat = [])"
| "js_includes (c # cs) pat = (prefix pat (c # cs) \<or> js_includes cs pat)"

text \<open>\<^verbatim>\<open>s.split(sep)\<close> for a separator of one code unit; the result is never empty.\<close>

fun split_on :: "'a \<Rightarrow> 'a list \<Rightarrow> 'a list list" where
  "split_on sep [] = [[]]"
| "split_on sep (c # cs) =
     (let r = split_on sep cs in if c = sep then [] # r else (c # hd r) # tl r)"

text \<open>\<^verbatim>\<open>parts.join(sep)\<close> for a separator of one code unit.\<close>

fun join :: "'a \<Rightarrow> 'a list list \<Rightarrow> 'a list" where
  "join sep [] = []"
| "join sep [x] = x"
| "join sep (x # y # ys) = x @ sep # join sep (y # ys)"

text \<open>
  The code units that \<^verbatim>\<open>String.prototype.trim\<close> strips: ECMAScript WhiteSpace and
  LineTerminator.
\<close>

definition is_space :: "16 word \<Rightarrow> bool" where
  "is_space c \<longleftrightarrow>
     c \<in> {0x0009, 0x000A, 0x000B, 0x000C, 0x000D, 0x0020, 0x00A0, 0x1680,
          0x2000, 0x2001, 0x2002, 0x2003, 0x2004, 0x2005, 0x2006, 0x2007, 0x2008,
          0x2009, 0x200A, 0x2028, 0x2029, 0x202F, 0x205F, 0x3000, 0xFEFF}"

definition trim :: "jsstring \<Rightarrow> jsstring" where
  "trim s = rev (dropWhile is_space (rev (dropWhile is_space s)))"

text \<open>\<^verbatim>\<open>s.replace(a, b)\<close> with one-unit strings: only the first occurrence is replaced.\<close>

fun replace_first :: "'a \<Rightarrow> 'a \<Rightarrow> 'a list \<Rightarrow> 'a list" where
  "replace_first a b [] = []"
| "replace_first a b (c # cs) = (if c = a then b # cs else c # replace_first a b cs)"

text \<open>\<^verbatim>\<open>/\d+\.\d{2}/.test(text)\<close>: some digit, a dot, two digits, anywhere in the text.\<close>

definition is_digit :: "16 word \<Rightarrow> bool" where
  "is_digit c \<longleftrightarrow> 0x30 \<le> c \<and> c \<le> 0x39"

fun has_decimal_amount :: "jsstring \<Rightarrow> bool" where
  "has_decimal_amount (a # b # c # d # rest) =
     ((is_digit a \<and> b = 0x2E \<and> is_digit c \<and> is_digit d)
      \<or> has_decimal_amount (b # c # d # rest))"
| "has_decimal_amount _ = False"

text \<open>
  The values that cross the script: parsed JSON, and \<open>undefined\<close>. A number carries a
  rational; no claim depends on the arithmetic of doubles.
\<close>

datatype jsvalue =
    JUndefined
  | JNull
  | JBool bool
  | JNum rat
  | JStr jsstring
  | JArr "jsvalue list"
  | JObj "(jsstring \<times> jsvalue) list"

datatype error = Error jsstring | SyntaxError jsstring | TypeError jsstring

fun message :: "error \<Rightarrow> jsstring" where
  "message (Error m) = m"
| "message (SyntaxError m) = m"
| "message (TypeError m) = m"

text \<open>\<^verbatim>\<open>!cookie\<close> is the negation of this.\<close>

fun truthy :: "jsvalue \<Rightarrow> bool" where
  "truthy JUndefined = False"
| "truthy JNull = False"
| "truthy (JBool b) = b"
| "truthy (JNum n) = (n \<noteq> 0)"
| "truthy (JStr s) = (s \<noteq> [])"
| "truthy (JArr _) = True"
| "truthy (JObj _) = True"

text \<open>\<^verbatim>\<open>v.key\<close>: reading a property of \<open>null\<close> or \<open>undefined\<close> throws.\<close>

fun get_property :: "jsvalue \<Rightarrow> jsstring \<Rightarrow> error + jsvalue" where
  "get_property JUndefined key =
     Inl (TypeError (ascii ''Cannot read properties of undefined''))"
| "get_property JNull key = Inl (TypeError (ascii ''Cannot read properties of null''))"
| "get_property (JObj props) key =
     Inr (case map_of props key of Some v \<Rightarrow> v | None \<Rightarrow> JUndefined)"
| "get_property _ key = Inr JUndefined"

section \<open>The outside world\<close>

record cookie_entry =
  name :: jsstring
  "value" :: jsstring
  domain :: jsstring

text \<open>An element of the page: its tag, its \<open>class\<close> attribute and its \<open>innerText\<close>.\<close>

record element =
  tag :: jsstring
  class_attr :: "jsstring option"
  innerText :: "jsstring option"

text \<open>A resource-timing entry of the page, and the pair the script keeps of it.\<close>

datatype resource = Resource (entry_name: jsstring) (initiatorType: jsstring)

datatype api_call = ApiCall (call_name: jsstring) (call_type: jsstring)

datatype event =
    ConsoleLog "jsstring list"
  | ConsoleError "jsstring list"
  | PageConsoleLog jsstring
  | Launch
  | NewPage
  | SetCookie "cookie_entry list"
  | Goto jsstring
  | WaitForSelector jsstring
  | Fetch jsstring
  | BrowserClose
  | WriteFile jsstring jsstring
  | ExecSync jsstring
  | ProcessExit nat

text \<open>
  What a run meets and does not control. \<open>cookieFile\<close> is the credential file as
  \<^verbatim>\<open>getCookie\<close> sees it: \<open>None\<close> when \<^verbatim>\<open>fs.existsSync\<close> is false, otherwise the
  outcome of \<^verbatim>\<open>JSON.parse(fs.readFileSync(cookieFile, 'utf8'))\<close>, an error when the
  read or the parse throws. An \<open>error option\<close> is the outcome of a call made for its
  effect: \<open>None\<close> when it returns. \<open>fetch_json i url\<close> is the outcome of the re-fetch of
  the \<open>i\<close>-th listed call. \<open>toISOString k\<close> is the clock at the \<open>k\<close>-th reading.
\<close>

record env =
  cookieFile :: "(error + jsvalue) option"
  MINIMAX_COOKIE :: "jsstring option"
  JSON_stringify :: "jsvalue \<Rightarrow> jsstring"
  toISOString :: "nat \<Rightarrow> jsstring"
  require_puppeteer :: "error option"
  puppeteer_launch :: "error option"
  newPage :: "error option"
  setCookie :: "cookie_entry list \<Rightarrow> error option"
  goto :: "error option"
  waitForSelector :: "error option"
  evaluate_content :: "error option"
  document_elements :: "element list"
  body_innerText :: jsstring
  evaluate_apiCalls :: "error option"
  resources :: "resource list"
  fetch_json :: "nat \<Rightarrow> jsstring \<Rightarrow> error + jsvalue"
  browser_close :: "error option"
  balanceFile :: jsstring
  readFileSync :: "error option"
  writeFileSync :: "jsstring \<Rightarrow> error option"
  execSync :: "jsstring \<Rightarrow> error option"

text \<open>
  What a run changes: the trace of its calls, the content of \<^verbatim>\<open>MINIMAX_BALANCE.md\<close>
  (\<open>None\<close> while the file does not exist) and the number of clock readings so far.
\<close>

record world =
  events :: "event list"
  log_content :: "jsstring option"
  clock_reads :: nat

section \<open>Computations that may throw\<close>

type_synonym 'a io = "world \<Rightarrow> (error + 'a) \<times> world"

definition return_io :: "'a \<Rightarrow> 'a io" where
  "return_io x = (\<lambda>w. (Inr x, w))"

definition throw_io :: "error \<Rightarrow> 'a io" where
  "throw_io e = (\<lambda>w. (Inl e, w))"

definition bind_io :: "'a io \<Rightarrow> ('a \<Rightarrow> 'b io) \<Rightarrow> 'b io" where
  "bind_io m f = (\<lambda>w. case m w of (Inl e, w') \<Rightarrow> (Inl e, w') | (Inr x, w') \<Rightarrow> f x w')"

definition then_io :: "unit io \<Rightarrow> 'b io \<Rightarrow> 'b io" where
  "then_io m k = bind_io m (\<lambda>_. k)"

text \<open>\<^verbatim>\<open>try { body } catch (e) { handler }\<close>\<close>

definition try_catch :: "'a io \<Rightarrow> (error \<Rightarrow> 'a io) \<Rightarrow> 'a io" where
  "try_catch body handler =
     (\<lambda>w. case body w of (Inl e, w') \<Rightarrow> handler e w' | (Inr x, w') \<Rightarrow> (Inr x, w'))"

text \<open>
  \<^verbatim>\<open>try { body } finally { fin }\<close>: \<open>fin\<close> runs after \<open>body\<close> however \<open>body\<close> ends; an
  error of \<open>fin\<close> replaces the outcome of \<open>body\<close>.
\<close>

definition try_finally :: "'a io \<Rightarrow> unit io \<Rightarrow> 'a io" where
  "try_finally body fin =
     (\<lambda>w. case body w of (r, w') \<Rightarrow>
        (case fin w' of (Inl e, w'') \<Rightarrow> (Inl e, w'') | (Inr _, w'') \<Rightarrow> (r, w'')))"

definition emit :: "event \<Rightarrow> unit io" where
  "emit ev = (\<lambda>w. (Inr (), w\<lparr>events := events w @ [ev]\<rparr>))"

definition attempt :: "error option \<Rightarrow> unit io" where
  "attempt outcome = (case outcome of None \<Rightarrow> return_io () | Some e \<Rightarrow> throw_io e)"

definition outcome_io :: "error + 'a \<Rightarrow> 'a io" where
  "outcome_io outcome = (case outcome of Inl e \<Rightarrow> throw_io e | Inr x \<Rightarrow> return_io x)"

definition emit_all :: "event list \<Rightarrow> unit io" where
  "emit_all evs = (\<lambda>w. (Inr (), w\<lparr>events := events w @ evs\<rparr>))"

section \<open>The script\<close>

subsection \<open>getCookie, formatDate\<close>

definition getCookie :: "env \<Rightarrow> error + jsvalue" where
  "getCookie env =
     (case cookieFile env of
        Some parsed \<Rightarrow>
          (case parsed of
             Inl e \<Rightarrow> Inl e
           | Inr cookieData \<Rightarrow> get_property cookieData (ascii ''cookie''))
      | None \<Rightarrow>
          Inr (JStr (case MINIMAX_COOKIE env of
                       Some c \<Rightarrow> if c \<noteq> [] then c else []
                     | None \<Rightarrow> [])))"

text \<open>\<^verbatim>\<open>iso.replace('T', ' ').substring(0, 19) + ' UTC'\<close>\<close>

definition format_iso :: "jsstring \<Rightarrow> jsstring" where
  "format_iso s = take 19 (replace_first 0x54 0x20 s) @ ascii '' UTC''"

definition formatDate :: "env \<Rightarrow> jsstring io" where
  "formatDate env =
     (\<lambda>w. (Inr (format_iso (toISOString env (clock_reads w))),
            w\<lparr>clock_reads := clock_reads w + 1\<rparr>))"

subsection \<open>fetchBalance\<close>

definition missing_cookie_message :: jsstring where
  "missing_cookie_message =
     [0x672A, 0x627E, 0x5230] @ ascii '' MiniMax cookie'' @ [0xFF0C, 0x8BF7, 0x5728]
     @ ascii '' minimax-cookie.json '' @ [0x4E2D, 0x914D, 0x7F6E]"

definition url :: jsstring where
  "url = ascii ''https://platform.minimaxi.com/user-center/basic-information''"

text \<open>
  \<^verbatim>\<open>c => { const [name, ...value] = c.trim().split('='); return {name, value: value.join('='), domain} }\<close>
\<close>

definition cookie_of_pair :: "jsstring \<Rightarrow> cookie_entry" where
  "cookie_of_pair c =
     (let parts = split_on 0x3D (trim c)
      in \<lparr>name = hd parts, value = join 0x3D (tl parts), domain = ascii ''.minimaxi.com''\<rparr>)"

definition cookies_of :: "jsstring \<Rightarrow> cookie_entry list" where
  "cookies_of cookie = map cookie_of_pair (split_on 0x3B cookie)"

text \<open>\<^verbatim>\<open>cookie.split\<close> exists on strings only; the cookie is truthy here.\<close>

fun split_cookie :: "jsvalue \<Rightarrow> error + cookie_entry list" where
  "split_cookie (JStr cookie) = Inr (cookies_of cookie)"
| "split_cookie _ = Inl (TypeError (ascii ''cookie.split is not a function''))"

datatype selector = ClassContains jsstring | TagName jsstring

definition selectors :: "selector list" where
  "selectors =
     [ClassContains (ascii ''balance''), ClassContains (ascii ''credit''),
      ClassContains (ascii ''amount''), ClassContains (ascii ''quota''),
      TagName (ascii ''span''), TagName (ascii ''div'')]"

fun matches :: "selector \<Rightarrow> element \<Rightarrow> bool" where
  "matches (ClassContains s) el =
     (case class_attr el of Some c \<Rightarrow> js_includes c s | None \<Rightarrow> False)"
| "matches (TagName t) el = (tag el = t)"

definition querySelectorAll :: "element list \<Rightarrow> selector \<Rightarrow> element list" where
  "querySelectorAll doc sel = filter (matches sel) doc"

text \<open>
  \<^verbatim>\<open>text && (text.includes(yen) || text.includes(yuan) || /\d+\.\d{2}/.test(text))\<close>,
  with the yen sign as U+00A5 and the yuan character as U+5143.
\<close>

definition balance_like :: "jsstring option \<Rightarrow> bool" where
  "balance_like t =
     (case t of
        None \<Rightarrow> False
      | Some text \<Rightarrow>
          text \<noteq> [] \<and>
          (js_includes text [0x00A5] \<or> js_includes text [0x5143] \<or> has_decimal_amount text))"

text \<open>
  The scan of the first \<^verbatim>\<open>page.evaluate\<close>: for every selector in order, for every
  matching element in document order, one line on the console of the page. The scan
  returns nothing.
\<close>

definition scan_found :: "element list \<Rightarrow> jsstring list" where
  "scan_found doc =
     concat (map (\<lambda>sel.
        concat (map (\<lambda>el. if balance_like (innerText el)
                           then [ascii ''Found: '' @ the (innerText el)] else [])
                    (querySelectorAll doc sel)))
        selectors)"

definition evaluate_page_content :: "env \<Rightarrow> jsstring io" where
  "evaluate_page_content env =
     then_io (attempt (evaluate_content env))
       (then_io (emit_all (map PageConsoleLog (scan_found (document_elements env))))
          (return_io (body_innerText env)))"

text \<open>
  The second \<^verbatim>\<open>page.evaluate\<close>: the \<open>fetch\<close> and \<open>xhr\<close> entries, the last ten of them
  (\<^verbatim>\<open>requests.slice(-10)\<close>).
\<close>

definition recent_api_calls :: "resource list \<Rightarrow> api_call list" where
  "recent_api_calls rs =
     (let requests =
            map (\<lambda>r. ApiCall (entry_name r) (initiatorType r))
              (filter (\<lambda>r. initiatorType r = ascii ''fetch'' \<or> initiatorType r = ascii ''xhr'')
                 rs)
      in drop (length requests - 10) requests)"

definition evaluate_api_calls :: "env \<Rightarrow> api_call list io" where
  "evaluate_api_calls env =
     then_io (attempt (evaluate_apiCalls env)) (return_io (recent_api_calls (resources env)))"

definition api_call_value :: "api_call \<Rightarrow> jsvalue" where
  "api_call_value call =
     JObj [(ascii ''name'', JStr (call_name call)), (ascii ''type'', JStr (call_type call))]"

definition is_balance_api :: "api_call \<Rightarrow> bool" where
  "is_balance_api call \<longleftrightarrow>
     js_includes (call_name call) (ascii ''balance'')
     \<or> js_includes (call_name call) (ascii ''credit'')
     \<or> js_includes (call_name call) (ascii ''quota'')"

text \<open>
  The \<^verbatim>\<open>for (const call of apiCalls)\<close> loop from its \<open>i\<close>-th call on. \<open>Some response\<close>
  is the \<^verbatim>\<open>return response\<close> inside the loop, \<open>None\<close> is the loop running to its end.
\<close>

fun try_api_calls :: "env \<Rightarrow> nat \<Rightarrow> api_call list \<Rightarrow> jsvalue option io" where
  "try_api_calls env i [] = return_io None"
| "try_api_calls env i (call # calls) =
     (if is_balance_api call then
        bind_io
          (try_catch
             (then_io (emit (Fetch (call_name call)))
                (bind_io (outcome_io (fetch_json env i (call_name call))) (\<lambda>response.
                   then_io
                     (emit (ConsoleLog [ascii ''Balance API response:'',
                                        JSON_stringify env response]))
                     (return_io (Some response)))))
             (\<lambda>e. then_io (emit (ConsoleLog [ascii ''Failed to fetch API:'', message e]))
                     (return_io None)))
          (\<lambda>returned. case returned of
                         Some response \<Rightarrow> return_io (Some response)
                       | None \<Rightarrow> try_api_calls env (Suc i) calls)
      else try_api_calls env (Suc i) calls)"

definition page_loaded :: "jsstring \<Rightarrow> jsvalue" where
  "page_loaded content =
     JObj [(ascii ''status'', JStr (ascii ''page_loaded'')),
           (ascii ''content_preview'', JStr (take 500 content))]"

text \<open>The body of the \<^verbatim>\<open>try\<close> block of \<^verbatim>\<open>fetchBalance\<close>.\<close>

definition page_session :: "env \<Rightarrow> jsvalue \<Rightarrow> jsvalue io" where
  "page_session env cookie =
     then_io (emit NewPage) (
     then_io (attempt (newPage env)) (
     bind_io (outcome_io (split_cookie cookie)) (\<lambda>cookies.
     then_io (emit (SetCookie cookies)) (
     then_io (attempt (setCookie env cookies)) (
     then_io (emit (Goto url)) (
     then_io (attempt (goto env)) (
     then_io (emit (WaitForSelector (ascii ''body''))) (
     then_io (attempt (waitForSelector env)) (
     bind_io (evaluate_page_content env) (\<lambda>content.
     then_io (emit (ConsoleLog [ascii ''Page content loaded''])) (
     bind_io (evaluate_api_calls env) (\<lambda>apiCalls.
     then_io (emit (ConsoleLog [ascii ''API calls:'',
                                JSON_stringify env (JArr (map api_call_value apiCalls))])) (
     bind_io (try_api_calls env 0 apiCalls) (\<lambda>returned.
       case returned of
         Some response \<Rightarrow> return_io response
       | None \<Rightarrow> return_io (page_loaded content)))))))))))))))"

definition fetchBalance :: "env \<Rightarrow> jsvalue io" where
  "fetchBalance env =
     bind_io (outcome_io (getCookie env)) (\<lambda>cookie.
       if \<not> truthy cookie then throw_io (Error missing_cookie_message)
       else
         then_io (attempt (require_puppeteer env)) (
         then_io (emit Launch) (
         then_io (attempt (puppeteer_launch env)) (
         try_finally (page_session env cookie)
           (then_io (emit BrowserClose) (attempt (browser_close env)))))))"

subsection \<open>saveToGitHub\<close>

definition render_record :: "jsstring \<Rightarrow> jsstring \<Rightarrow> jsstring" where
  "render_record date body = ascii ''## '' @ date @ [0x0A] @ body @ [0x0A, 0x0A]"

definition title :: jsstring where
  "title = ascii ''# MiniMax '' @ [0x4F59, 0x989D, 0x8BB0, 0x5F55]"

definition separator :: jsstring where
  "separator = [0x0A] @ ascii ''---'' @ [0x0A, 0x0A]"

definition newContent :: "jsstring \<Rightarrow> jsstring \<Rightarrow> jsstring" where
  "newContent new_record existingContent =
     title @ [0x0A, 0x0A] @ new_record @ separator @ existingContent"

definition read_existing :: "env \<Rightarrow> jsstring io" where
  "read_existing env =
     (\<lambda>w. case log_content w of
             None \<Rightarrow> (Inr [], w)
           | Some c \<Rightarrow> (case readFileSync env of Some e \<Rightarrow> (Inl e, w) | None \<Rightarrow> (Inr c, w)))"

text \<open>A write that throws leaves the file as it was.\<close>

definition write_file :: "env \<Rightarrow> jsstring \<Rightarrow> unit io" where
  "write_file env content =
     then_io (emit (WriteFile (balanceFile env) content))
       (\<lambda>w. case writeFileSync env content of
               Some e \<Rightarrow> (Inl e, w)
             | None \<Rightarrow> (Inr (), w\<lparr>log_content := Some content\<rparr>))"

definition exec :: "env \<Rightarrow> jsstring \<Rightarrow> unit io" where
  "exec env cmd = then_io (emit (ExecSync cmd)) (attempt (execSync env cmd))"

definition commit_command :: "jsstring \<Rightarrow> jsstring" where
  "commit_command date =
     ascii ''git commit -m '' @ [0x22] @ ascii ''docs: '' @ [0x66F4, 0x65B0]
     @ ascii '' MiniMax '' @ [0x4F59, 0x989D] @ ascii '' - '' @ date @ [0x22]"

definition saved_message :: jsstring where
  "saved_message = [0x4F59, 0x989D, 0x5DF2, 0x4FDD, 0x5B58, 0x5230] @ ascii '' ''"

definition synced_message :: jsstring where
  "synced_message = [0x5DF2, 0x540C, 0x6B65, 0x5230] @ ascii '' GitHub''"

definition sync_failed_message :: jsstring where
  "sync_failed_message = ascii ''Git '' @ [0x540C, 0x6B65, 0x5931, 0x8D25] @ ascii '':''"

definition publish :: "env \<Rightarrow> jsstring \<Rightarrow> unit io" where
  "publish env date =
     try_catch
       (then_io (exec env (ascii ''git add -A'')) (
        then_io (exec env (commit_command date)) (
        then_io (exec env (ascii ''git push origin main'')) (
        emit (ConsoleLog [synced_message])))))
       (\<lambda>e. emit (ConsoleLog [sync_failed_message, message e]))"

definition saveToGitHub :: "env \<Rightarrow> jsvalue \<Rightarrow> unit io" where
  "saveToGitHub env balanceData =
     bind_io (formatDate env) (\<lambda>date.
     bind_io (read_existing env) (\<lambda>existingContent.
     then_io
       (write_file env
          (newContent (render_record date (JSON_stringify env balanceData)) existingContent)) (
     then_io (emit (ConsoleLog [saved_message @ balanceFile env])) (
     publish env date))))"

subsection \<open>main\<close>

definition banner :: jsstring where
  "banner = ascii ''=== MiniMax '' @ [0x4F59, 0x989D, 0x67E5, 0x8BE2] @ ascii '' ===''"

definition main_try :: "env \<Rightarrow> unit io" where
  "main_try env =
     bind_io (fetchBalance env) (\<lambda>balance.
     then_io (emit (ConsoleLog [[0x4F59, 0x989D, 0x4FE1, 0x606F] @ ascii '':'',
                                JSON_stringify env balance])) (
     bind_io (formatDate env) (\<lambda>timestamp.
     then_io
       (saveToGitHub env
          (JObj [(ascii ''timestamp'', JStr timestamp), (ascii ''data'', balance)])) (
     emit (ConsoleLog [[0x5B8C, 0x6210] @ ascii ''!''])))))"

text \<open>
  \<open>main\<close> returns the exit code of the process with the final world: 1 after
  \<^verbatim>\<open>process.exit(1)\<close> in the \<^verbatim>\<open>catch\<close>, 0 when the script runs to its end.
\<close>

definition main :: "env \<Rightarrow> world \<Rightarrow> nat \<times> world" where
  "main env w =
     (case then_io (emit (ConsoleLog [banner]))
             (bind_io (formatDate env) (\<lambda>d.
                emit (ConsoleLog [[0x65F6, 0x95F4] @ ascii '': '' @ d]))) w of
        (_, w1) \<Rightarrow>
          (case main_try env w1 of
             (Inr _, w2) \<Rightarrow> (0, w2)
           | (Inl error, w2) \<Rightarrow>
               (1, w2\<lparr>events := events w2 @
                        [ConsoleError [[0x9519, 0x8BEF] @ ascii '':'', message error],
                         ProcessExit 1]\<rparr>)))"

section \<open>Notions for the proofs\<close>

text \<open>
  A computation that only appends events to the trace, none of them in \<open>X\<close>, and whose
  outcome and events do not depend on the world it starts in.
\<close>

definition logs_only :: "event set \<Rightarrow> 'a io \<Rightarrow> bool" where
  "logs_only X m \<longleftrightarrow>
     (\<exists>r evs. set evs \<inter> X = {} \<and> (\<forall>w. m w = (r, w\<lparr>events := events w @ evs\<rparr>)))"

text \<open>
  The page loads for the cookie string \<open>cookie\<close>: the credential is found, the browser
  starts, every step up to the two \<^verbatim>\<open>page.evaluate\<close> calls returns, and so does
  \<^verbatim>\<open>browser.close()\<close>.
\<close>

definition loads :: "env \<Rightarrow> jsstring \<Rightarrow> bool" where
  "loads env cookie \<longleftrightarrow>
     getCookie env = Inr (JStr cookie) \<and> cookie \<noteq> [] \<and>
     require_puppeteer env = None \<and> puppeteer_launch env = None \<and>
     newPage env = None \<and> setCookie env (cookies_of cookie) = None \<and>
     goto env = None \<and> waitForSelector env = None \<and>
     evaluate_content env = None \<and> evaluate_apiCalls env = None \<and>
     browser_close env = None"

text \<open>
  What the loop over the listed calls returns, without its trace: the response of the
  first call that passes the URL filter and whose re-fetch returns.
\<close>

fun first_response :: "env \<Rightarrow> nat \<Rightarrow> api_call list \<Rightarrow> jsvalue option" where
  "first_response env i [] = None"
| "first_response env i (call # calls) =
     (if is_balance_api call then
        (case fetch_json env i (call_name call) of
           Inr response \<Rightarrow> Some response
         | Inl e \<Rightarrow> first_response env (Suc i) calls)
      else first_response env (Suc i) calls)"

text \<open>The events of that loop, in order.\<close>

fun loop_events :: "env \<Rightarrow> nat \<Rightarrow> api_call list \<Rightarrow> event list" where
  "loop_events env i [] = []"
| "loop_events env i (call # calls) =
     (if is_balance_api call then
        Fetch (call_name call) #
        (case fetch_json env i (call_name call) of
           Inr response \<Rightarrow>
             [ConsoleLog [ascii ''Balance API response:'', JSON_stringify env response]]
         | Inl e \<Rightarrow>
             ConsoleLog [ascii ''Failed to fetch API:'', message e]
             # loop_events env (Suc i) calls)
      else loop_events env (Suc i) calls)"

text \<open>The events of \<open>publish\<close>: the three commands up to the first that throws.\<close>

definition publish_events :: "env \<Rightarrow> jsstring \<Rightarrow> event list" where
  "publish_events env date =
     ExecSync (ascii ''git add -A'') #
     (case execSync env (ascii ''git add -A'') of
        Some e \<Rightarrow> [ConsoleLog [sync_failed_message, message e]]
      | None \<Rightarrow>
          ExecSync (commit_command date) #
          (case execSync env (commit_command date) of
             Some e \<Rightarrow> [ConsoleLog [sync_failed_message, message e]]
           | None \<Rightarrow>
               ExecSync (ascii ''git push origin main'') #
               (case execSync env (ascii ''git push origin main'') of
                  Some e \<Rightarrow> [ConsoleLog [sync_failed_message, message e]]
                | None \<Rightarrow> [ConsoleLog [synced_message]])))"

section \<open>Scenarios\<close>

text \<open>
  Concrete worlds and environments for the examples. In \<open>no_credential_env\<close> there is
  no credential file and no environment variable, the page is empty and lists no call,
  and every call to the outside returns, except a re-fetch, which throws. Its clock
  shows eight o'clock at the first reading and nine o'clock afterwards, and its
  \<open>JSON_stringify\<close> prints \<open>{}\<close> for every value: no theorem below depends on either.
  \<open>cookie_file_env\<close> adds the credential file \<^verbatim>\<open>{"cookie":"sid=abc; uid=42"}\<close>.
\<close>

definition fresh_world :: world where
  "fresh_world = \<lparr>events = [], log_content = None, clock_reads = 0\<rparr>"

definition no_credential_env :: env where
  "no_credential_env =
     \<lparr>cookieFile = None,
      MINIMAX_COOKIE = None,
      JSON_stringify = (\<lambda>v. ascii ''{}''),
      toISOString =
        (\<lambda>k. if k = 0 then ascii ''2024-05-01T08:00:00.000Z''
             else ascii ''2024-05-01T09:00:00.000Z''),
      require_puppeteer = None,
      puppeteer_launch = None,
      newPage = None,
      setCookie = (\<lambda>cookies. None),
      goto = None,
      waitForSelector = None,
      evaluate_content = None,
      document_elements = [],
      body_innerText = [],
      evaluate_apiCalls = None,
      resources = [],
      fetch_json = (\<lambda>i u. Inl (Error (ascii ''Failed to fetch''))),
      browser_close = None,
      balanceFile = ascii ''MINIMAX_BALANCE.md'',
      readFileSync = None,
      writeFileSync = (\<lambda>content. None),
      execSync = (\<lambda>cmd. None)\<rparr>"

definition cookie_file_env :: env where
  "cookie_file_env =
     no_credential_env
       \<lparr>cookieFile := Some (Inr (JObj [(ascii ''cookie'', JStr (ascii ''sid=abc; uid=42''))]))\<rparr>"


text \<open>
  Two listed calls pass the URL filter. In \<open>failing_then_working_env\<close> the re-fetch of
  the first throws and that of the second returns; in \<open>all_failing_env\<close> both throw.
  \<open>long_page_env\<close> is a page of 600 code units of text and no listed call.
\<close>

definition failing_then_working_env :: env where
  "failing_then_working_env =
     cookie_file_env
       \<lparr>body_innerText := ascii ''Account'',
        resources :=
          [Resource (ascii ''/api/balance'') (ascii ''fetch''),
           Resource (ascii ''/api/quota'') (ascii ''xhr'')],
        fetch_json :=
          (\<lambda>i u. if i = 0 then Inl (Error (ascii ''Failed to fetch''))
                 else Inr (JObj [(ascii ''quota'', JNum 5)]))\<rparr>"

definition all_failing_env :: env where
  "all_failing_env =
     cookie_file_env
       \<lparr>body_innerText := ascii ''Account'',
        resources :=
          [Resource (ascii ''/api/balance'') (ascii ''fetch''),
           Resource (ascii ''/api/quota'') (ascii ''xhr'')]\<rparr>"

definition long_page_env :: env where
  "long_page_env = cookie_file_env\<lparr>body_innerText := replicate 600 0x61\<rparr>"

text \<open>
  In \<open>unparseable_file_env\<close> the credential file exists and \<^verbatim>\<open>JSON.parse\<close> throws on it,
  while the environment variable holds a cookie. In \<open>both_sources_env\<close> the file and the
  variable hold different cookies.
\<close>

definition unparseable_file_env :: env where
  "unparseable_file_env =
     no_credential_env
       \<lparr>cookieFile := Some (Inl (SyntaxError (ascii ''Unexpected end of JSON input''))),
        MINIMAX_COOKIE := Some (ascii ''sid=abc'')\<rparr>"

definition both_sources_env :: env where
  "both_sources_env = cookie_file_env\<lparr>MINIMAX_COOKIE := Some (ascii ''sid=env'')\<rparr>"

text \<open>In \<open>offline_env\<close> the page loads and the push fails.\<close>

definition offline_env :: env where
  "offline_env =
     cookie_file_env
       \<lparr>execSync :=
          (\<lambda>cmd. if cmd = ascii ''git push origin main''
                 then Some (Error (ascii ''Command failed: git push origin main''))
                 else None)\<rparr>"

section \<open>Facts about the string functions\<close>







section \<open>Cookie injection\<close>



section \<open>Facts about computations\<close>

lemma return_io_apply: "return_io x w = (Inr x, w)"
  by (simp add: return_io_def)

lemma throw_io_apply: "throw_io e w = (Inl e, w)"
  by (simp add: throw_io_def)

lemma emit_apply: "emit ev w = (Inr (), w\<lparr>events := events w @ [ev]\<rparr>)"
  by (simp add: emit_def)

lemma emit_all_apply: "emit_all evs w = (Inr (), w\<lparr>events := events w @ evs\<rparr>)"
  by (simp add: emit_all_def)

lemmas io_apply = return_io_apply throw_io_apply emit_apply emit_all_apply

lemma attempt_simps [simp]: "attempt None = return_io ()" "attempt (Some e) = throw_io e"
  by (simp_all add: attempt_def)

lemma outcome_io_simps [simp]:
  "outcome_io (Inl e) = throw_io e" "outcome_io (Inr x) = return_io x"
  by (simp_all add: outcome_io_def)

lemma world_same [simp]: "w\<lparr>events := events w @ []\<rparr> = w"
  by simp

lemma logs_onlyI:
  "set evs \<inter> X = {} \<Longrightarrow> (\<And>w. m w = (r, w\<lparr>events := events w @ evs\<rparr>)) \<Longrightarrow> logs_only X m"
  unfolding logs_only_def by blast

lemma logs_only_return [simp]: "logs_only X (return_io x)"
  by (rule logs_onlyI [of "[]"]) (simp_all add: io_apply)

lemma logs_only_throw [simp]: "logs_only X (throw_io e)"
  by (rule logs_onlyI [of "[]"]) (simp_all add: io_apply)

lemma logs_only_attempt [simp]: "logs_only X (attempt outcome)"
  by (cases outcome) simp_all

lemma logs_only_outcome [simp]: "logs_only X (outcome_io outcome)"
  by (cases outcome) simp_all

lemma logs_only_emit: "ev \<notin> X \<Longrightarrow> logs_only X (emit ev)"
  by (rule logs_onlyI [of "[ev]"]) (auto simp: io_apply)

lemma logs_only_emit_all: "set evs \<inter> X = {} \<Longrightarrow> logs_only X (emit_all evs)"
  by (rule logs_onlyI [of evs]) (auto simp: io_apply)

lemma logs_only_bind:
  assumes m: "logs_only X m" and f: "\<And>x. logs_only X (f x)"
  shows "logs_only X (bind_io m f)"
proof -
  from m obtain r evs where evs: "set evs \<inter> X = {}"
    and mw: "\<And>w. m w = (r, w\<lparr>events := events w @ evs\<rparr>)"
    unfolding logs_only_def by blast
  show ?thesis
  proof (cases r)
    case (Inl e)
    show ?thesis
      by (rule logs_onlyI [OF evs, of _ "Inl e"]) (simp add: bind_io_def mw Inl)
  next
    case (Inr x)
    from f [of x] obtain r' evs' where evs': "set evs' \<inter> X = {}"
      and fw: "\<And>w. f x w = (r', w\<lparr>events := events w @ evs'\<rparr>)"
      unfolding logs_only_def by blast
    from evs evs' have "set (evs @ evs') \<inter> X = {}" by auto
    then show ?thesis
      by (rule logs_onlyI [of _ _ _ r']) (simp add: bind_io_def mw Inr fw)
  qed
qed

lemma logs_only_then: "logs_only X m \<Longrightarrow> logs_only X k \<Longrightarrow> logs_only X (then_io m k)"
  by (simp add: then_io_def logs_only_bind)

lemma logs_only_catch:
  assumes m: "logs_only X m" and h: "\<And>e. logs_only X (h e)"
  shows "logs_only X (try_catch m h)"
proof -
  from m obtain r evs where evs: "set evs \<inter> X = {}"
    and mw: "\<And>w. m w = (r, w\<lparr>events := events w @ evs\<rparr>)"
    unfolding logs_only_def by blast
  show ?thesis
  proof (cases r)
    case (Inr x)
    show ?thesis
      by (rule logs_onlyI [OF evs, of _ "Inr x"]) (simp add: try_catch_def mw Inr)
  next
    case (Inl e)
    from h [of e] obtain r' evs' where evs': "set evs' \<inter> X = {}"
      and hw: "\<And>w. h e w = (r', w\<lparr>events := events w @ evs'\<rparr>)"
      unfolding logs_only_def by blast
    from evs evs' have "set (evs @ evs') \<inter> X = {}" by auto
    then show ?thesis
      by (rule logs_onlyI [of _ _ _ r']) (simp add: try_catch_def mw Inl hw)
  qed
qed

lemma logs_only_finally:
  assumes m: "logs_only X m" and k: "logs_only X k"
  shows "logs_only X (try_finally m k)"
proof -
  from m obtain r evs where evs: "set evs \<inter> X = {}"
    and mw: "\<And>w. m w = (r, w\<lparr>events := events w @ evs\<rparr>)"
    unfolding logs_only_def by blast
  from k obtain r' evs' where evs': "set evs' \<inter> X = {}"
    and kw: "\<And>w. k w = (r', w\<lparr>events := events w @ evs'\<rparr>)"
    unfolding logs_only_def by blast
  from evs evs' have both: "set (evs @ evs') \<inter> X = {}" by auto
  show ?thesis
  proof (cases r')
    case (Inl e)
    from both show ?thesis
      by (rule logs_onlyI [of _ _ _ "Inl e"]) (simp add: try_finally_def mw kw Inl)
  next
    case (Inr u)
    from both show ?thesis
      by (rule logs_onlyI [of _ _ _ r]) (simp add: try_finally_def mw kw Inr)
  qed
qed

lemmas logs_only_intros =
  logs_only_bind logs_only_then logs_only_catch logs_only_finally logs_only_emit
  logs_only_emit_all

lemma logs_only_try_api_calls:
  "(\<And>u. Fetch u \<notin> X) \<Longrightarrow> (\<And>l. ConsoleLog l \<notin> X) \<Longrightarrow> logs_only X (try_api_calls env i calls)"
proof (induction calls arbitrary: i)
  case Nil
  show ?case by simp
next
  case (Cons call calls)
  then show ?case
    by (auto intro!: logs_only_intros split: option.split)
qed

lemma logs_only_page_session: "logs_only {BrowserClose} (page_session env cookie)"
  unfolding page_session_def evaluate_page_content_def evaluate_api_calls_def
  by (auto intro!: logs_only_intros logs_only_try_api_calls split: option.split)

lemma logs_only_fetchBalance: "logs_only {} (fetchBalance env)"
  unfolding fetchBalance_def page_session_def evaluate_page_content_def
    evaluate_api_calls_def
  by (auto intro!: logs_only_intros logs_only_try_api_calls split: option.split)

section \<open>Facts about the scenarios and the loop\<close>

lemma no_credential_env_fields [simp]:
  "cookieFile no_credential_env = None"
  "MINIMAX_COOKIE no_credential_env = None"
  "JSON_stringify no_credential_env v = ascii ''{}''"
  "toISOString no_credential_env k =
     (if k = 0 then ascii ''2024-05-01T08:00:00.000Z'' else ascii ''2024-05-01T09:00:00.000Z'')"
  "require_puppeteer no_credential_env = None"
  "puppeteer_launch no_credential_env = None"
  "newPage no_credential_env = None"
  "setCookie no_credential_env cookies = None"
  "goto no_credential_env = None"
  "waitForSelector no_credential_env = None"
  "evaluate_content no_credential_env = None"
  "document_elements no_credential_env = []"
  "body_innerText no_credential_env = []"
  "evaluate_apiCalls no_credential_env = None"
  "resources no_credential_env = []"
  "fetch_json no_credential_env i u = Inl (Error (ascii ''Failed to fetch''))"
  "browser_close no_credential_env = None"
  "balanceFile no_credential_env = ascii ''MINIMAX_BALANCE.md''"
  "readFileSync no_credential_env = None"
  "writeFileSync no_credential_env content = None"
  "execSync no_credential_env cmd = None"
  by (simp_all add: no_credential_env_def)

lemma ascii_eq_Nil [simp]: "ascii s = [] \<longleftrightarrow> s = []"
  by (simp add: ascii_def)

lemmas run_simps =
  fetchBalance_def page_session_def bind_io_def then_io_def try_finally_def try_catch_def
  io_apply getCookie_def evaluate_page_content_def evaluate_api_calls_def

lemma fresh_world_fields [simp]:
  "events fresh_world = []" "log_content fresh_world = None" "clock_reads fresh_world = 0"
  by (simp_all add: fresh_world_def)

lemma try_api_calls_eq:
  "try_api_calls env i calls w
     = (Inr (first_response env i calls), w\<lparr>events := events w @ loop_events env i calls\<rparr>)"
proof (induction calls arbitrary: i w)
  case Nil
  show ?case by (simp add: io_apply)
next
  case (Cons call calls)
  show ?case
    by (cases "fetch_json env i (call_name call)")
       (simp_all add: Cons bind_io_def then_io_def try_catch_def io_apply)
qed

lemma first_response_None_iff:
  "first_response env i calls = None \<longleftrightarrow>
     (\<forall>j<length calls. is_balance_api (calls ! j) \<longrightarrow>
        isl (fetch_json env (i + j) (call_name (calls ! j))))"
proof (induction calls arbitrary: i)
  case Nil
  show ?case by simp
next
  case (Cons call calls)
  show ?case
    by (cases "fetch_json env i (call_name call)")
       (simp_all add: Cons All_less_Suc2)
qed



lemma fetchBalance_loaded:
  assumes "loads env cookie"
  shows "fetchBalance env w =
    (Inr (case first_response env 0 (recent_api_calls (resources env)) of
            Some response \<Rightarrow> response
          | None \<Rightarrow> page_loaded (body_innerText env)),
     w\<lparr>events := events w @
        [Launch, NewPage, SetCookie (cookies_of cookie), Goto url,
         WaitForSelector (ascii ''body'')]
        @ map PageConsoleLog (scan_found (document_elements env))
        @ [ConsoleLog [ascii ''Page content loaded''],
           ConsoleLog [ascii ''API calls:'',
             JSON_stringify env (JArr (map api_call_value (recent_api_calls (resources env))))]]
        @ loop_events env 0 (recent_api_calls (resources env))
        @ [BrowserClose]\<rparr>)"
  using assms
  by (simp add: loads_def fetchBalance_def page_session_def evaluate_page_content_def
      evaluate_api_calls_def bind_io_def then_io_def try_finally_def io_apply
      try_api_calls_eq split: option.split)


section \<open>The browser session\<close>

text \<open>
  C2. Once the browser is launched (the credential is found, \<open>puppeteer\<close> is loaded and
  \<^verbatim>\<open>puppeteer.launch\<close> returns), \<open>fetchBalance\<close> closes it exactly once, as the last
  thing it does, whatever the session returns or throws and whether or not
  \<^verbatim>\<open>browser.close()\<close> itself throws.
\<close>

theorem browser_closed_exactly_once:
  assumes "getCookie env = Inr cookie" and "truthy cookie"
    and "require_puppeteer env = None" and "puppeteer_launch env = None"
  shows "\<exists>evs. events (snd (fetchBalance env w)) = events w @ Launch # evs @ [BrowserClose]
           \<and> BrowserClose \<notin> set evs"
proof -
  from logs_only_page_session [of env cookie]
  obtain r evs where evs: "set evs \<inter> {BrowserClose} = {}"
    and run: "\<And>w. page_session env cookie w = (r, w\<lparr>events := events w @ evs\<rparr>)"
    unfolding logs_only_def by blast
  have "events (snd (fetchBalance env w)) = events w @ Launch # evs @ [BrowserClose]"
    using assms
    by (cases "browser_close env")
       (simp_all add: fetchBalance_def bind_io_def then_io_def try_finally_def io_apply run)
  with evs show ?thesis by auto
qed

text \<open>A session whose navigation times out: the error reaches the caller, after the close.\<close>

theorem browser_closed_exactly_once_witness:
  "getCookie (cookie_file_env\<lparr>goto := Some (Error (ascii ''Navigation timeout''))\<rparr>)
     = Inr (JStr (ascii ''sid=abc; uid=42''))
   \<and> truthy (JStr (ascii ''sid=abc; uid=42''))
   \<and> require_puppeteer (cookie_file_env\<lparr>goto := Some (Error (ascii ''Navigation timeout''))\<rparr>) = None
   \<and> puppeteer_launch (cookie_file_env\<lparr>goto := Some (Error (ascii ''Navigation timeout''))\<rparr>) = None
   \<and> fst (fetchBalance (cookie_file_env\<lparr>goto := Some (Error (ascii ''Navigation timeout''))\<rparr>)
          fresh_world) = Inl (Error (ascii ''Navigation timeout''))
   \<and> (\<exists>evs. events (snd (fetchBalance
                (cookie_file_env\<lparr>goto := Some (Error (ascii ''Navigation timeout''))\<rparr>)
                fresh_world))
          = events fresh_world @ Launch # evs @ [BrowserClose]
        \<and> BrowserClose \<notin> set evs)"
proof -
  let ?E = "cookie_file_env\<lparr>goto := Some (Error (ascii ''Navigation timeout''))\<rparr>"
  have h1: "getCookie ?E = Inr (JStr (ascii ''sid=abc; uid=42''))"
    by (simp add: getCookie_def cookie_file_env_def)
  have h2: "truthy (JStr (ascii ''sid=abc; uid=42''))"
    by (simp add: ascii_def)
  have h3: "require_puppeteer ?E = None"
    by (simp add: cookie_file_env_def)
  have h4: "puppeteer_launch ?E = None"
    by (simp add: cookie_file_env_def)
  have h5: "fst (fetchBalance ?E fresh_world) = Inl (Error (ascii ''Navigation timeout''))"
    by (simp add: run_simps cookie_file_env_def)
  from browser_closed_exactly_once [OF h1 h2 h3 h4, of fresh_world] h1 h2 h3 h4 h5
  show ?thesis by blast
qed

lemma first_response_Some:
  "first_response env i calls = Some r \<Longrightarrow>
   \<exists>j<length calls. is_balance_api (calls ! j)
      \<and> fetch_json env (i + j) (call_name (calls ! j)) = Inr r"
proof (induction calls arbitrary: i)
  case Nil
  then show ?case by simp
next
  case (Cons call calls)
  show ?case
  proof (cases "is_balance_api call \<and> fetch_json env i (call_name call) = Inr r")
    case True
    then show ?thesis by (intro exI [of _ 0]) simp
  next
    case False
    with Cons.prems have "first_response env (Suc i) calls = Some r"
      by (auto split: if_splits sum.splits)
    from Cons.IH [OF this] obtain j where "j < length calls" "is_balance_api (calls ! j)"
      "fetch_json env (Suc i + j) (call_name (calls ! j)) = Inr r" by blast
    then show ?thesis by (intro exI [of _ "Suc j"]) simp
  qed
qed

lemma cookie_file_env_loads: "loads cookie_file_env (ascii ''sid=abc; uid=42'')"
  by (simp add: loads_def getCookie_def cookie_file_env_def)

lemma loads_update [simp]:
  "loads (env\<lparr>body_innerText := t\<rparr>) c = loads env c"
  "loads (env\<lparr>resources := rs\<rparr>) c = loads env c"
  "loads (env\<lparr>fetch_json := f\<rparr>) c = loads env c"
  "loads (env\<lparr>document_elements := d\<rparr>) c = loads env c"
  by (simp_all add: loads_def getCookie_def split: option.split)

section \<open>The network probe\<close>

text \<open>
  C3. The loop over the listed calls never ends in an error. When the re-fetch of a
  call that passes the URL filter throws, the loop logs the failure and goes on with the
  next call, as if started there. Once the page has loaded, \<open>fetchBalance\<close> returns a
  value whatever the re-fetches do, and when every re-fetch throws it returns the
  \<open>page_loaded\<close> snapshot of the page text.
\<close>

theorem fetch_error_is_caught_per_candidate:
  "\<not> isl (fst (try_api_calls env i calls w))
   \<and> (is_balance_api call \<and> fetch_json env i (call_name call) = Inl e \<longrightarrow>
        try_api_calls env i (call # calls) w
          = try_api_calls env (Suc i) calls
              (w\<lparr>events := events w @
                 [Fetch (call_name call),
                  ConsoleLog [ascii ''Failed to fetch API:'', message e]]\<rparr>))
   \<and> (loads env cookie \<longrightarrow> \<not> isl (fst (fetchBalance env w)))
   \<and> (loads env cookie
        \<and> (\<forall>j<length (recent_api_calls (resources env)).
              is_balance_api (recent_api_calls (resources env) ! j) \<longrightarrow>
              isl (fetch_json env j (call_name (recent_api_calls (resources env) ! j))))
        \<longrightarrow> fst (fetchBalance env w) = Inr (page_loaded (body_innerText env)))"
proof (intro conjI impI)
  show "\<not> isl (fst (try_api_calls env i calls w))"
    by (simp add: try_api_calls_eq)
next
  assume "is_balance_api call \<and> fetch_json env i (call_name call) = Inl e"
  then show "try_api_calls env i (call # calls) w
          = try_api_calls env (Suc i) calls
              (w\<lparr>events := events w @
                 [Fetch (call_name call),
                  ConsoleLog [ascii ''Failed to fetch API:'', message e]]\<rparr>)"
    by (simp add: try_api_calls_eq del: try_api_calls.simps)
next
  assume "loads env cookie"
  then show "\<not> isl (fst (fetchBalance env w))"
    by (simp add: fetchBalance_loaded [of env cookie])
next
  assume h: "loads env cookie
        \<and> (\<forall>j<length (recent_api_calls (resources env)).
              is_balance_api (recent_api_calls (resources env) ! j) \<longrightarrow>
              isl (fetch_json env j (call_name (recent_api_calls (resources env) ! j))))"
  then have "first_response env 0 (recent_api_calls (resources env)) = None"
    by (simp add: first_response_None_iff)
  moreover from h have "loads env cookie" by simp
  ultimately show "fst (fetchBalance env w) = Inr (page_loaded (body_innerText env))"
    by (simp add: fetchBalance_loaded [of env cookie])
qed

lemma two_calls [simp]:
  "recent_api_calls
     [Resource (ascii ''/api/balance'') (ascii ''fetch''),
      Resource (ascii ''/api/quota'') (ascii ''xhr'')]
   = [ApiCall (ascii ''/api/balance'') (ascii ''fetch''),
      ApiCall (ascii ''/api/quota'') (ascii ''xhr'')]"
  by (simp add: recent_api_calls_def ascii_def)

lemma two_calls_pass [simp]:
  "is_balance_api (ApiCall (ascii ''/api/balance'') t)"
  "is_balance_api (ApiCall (ascii ''/api/quota'') t)"
  by (simp_all add: is_balance_api_def ascii_def)

text \<open>
  The first re-fetch throws and the second one is used; with both throwing, the
  snapshot is returned.
\<close>

theorem fetch_error_is_caught_per_candidate_witness:
  "is_balance_api (ApiCall (ascii ''/api/balance'') (ascii ''fetch''))
   \<and> fetch_json failing_then_working_env 0 (ascii ''/api/balance'')
       = Inl (Error (ascii ''Failed to fetch''))
   \<and> fst (try_api_calls failing_then_working_env 0
            [ApiCall (ascii ''/api/balance'') (ascii ''fetch''),
             ApiCall (ascii ''/api/quota'') (ascii ''xhr'')] fresh_world)
       = Inr (Some (JObj [(ascii ''quota'', JNum 5)]))
   \<and> loads all_failing_env (ascii ''sid=abc; uid=42'')
   \<and> fst (fetchBalance all_failing_env fresh_world) = Inr (page_loaded (ascii ''Account''))"
proof -
  let ?c1 = "ApiCall (ascii ''/api/balance'') (ascii ''fetch'')"
  let ?c2 = "ApiCall (ascii ''/api/quota'') (ascii ''xhr'')"
  have h1: "is_balance_api ?c1" by simp
  have h2: "fetch_json failing_then_working_env 0 (call_name ?c1)
              = Inl (Error (ascii ''Failed to fetch''))"
    by (simp add: failing_then_working_env_def)
  from fetch_error_is_caught_per_candidate
    [of failing_then_working_env 0 "[?c2]" fresh_world ?c1 "Error (ascii ''Failed to fetch'')"]
    h1 h2
  have step: "try_api_calls failing_then_working_env 0 [?c1, ?c2] fresh_world
      = try_api_calls failing_then_working_env (Suc 0) [?c2]
          (fresh_world\<lparr>events := events fresh_world @
             [Fetch (call_name ?c1),
              ConsoleLog [ascii ''Failed to fetch API:'',
                          message (Error (ascii ''Failed to fetch''))]]\<rparr>)"
    by blast
  have c1: "fst (try_api_calls failing_then_working_env 0 [?c1, ?c2] fresh_world)
       = Inr (Some (JObj [(ascii ''quota'', JNum 5)]))"
    unfolding step
    by (simp add: failing_then_working_env_def bind_io_def then_io_def try_catch_def io_apply)
  have h3: "loads all_failing_env (ascii ''sid=abc; uid=42'')"
    by (simp add: all_failing_env_def cookie_file_env_loads)
  have h4: "\<forall>j<length (recent_api_calls (resources all_failing_env)).
              is_balance_api (recent_api_calls (resources all_failing_env) ! j) \<longrightarrow>
              isl (fetch_json all_failing_env j
                     (call_name (recent_api_calls (resources all_failing_env) ! j)))"
    by (simp add: all_failing_env_def cookie_file_env_def)
  from fetch_error_is_caught_per_candidate
    [of all_failing_env _ _ fresh_world _ _ "ascii ''sid=abc; uid=42''"] h3 h4
  have "fst (fetchBalance all_failing_env fresh_world)
          = Inr (page_loaded (body_innerText all_failing_env))"
    by blast
  then have c2: "fst (fetchBalance all_failing_env fresh_world)
                   = Inr (page_loaded (ascii ''Account''))"
    by (simp add: all_failing_env_def)
  from h1 h2 c1 h3 c2 show ?thesis by simp
qed

section \<open>Claims about the extraction result\<close>

text \<open>
  C5. When the page has loaded and no listed call that passes the URL filter has a
  re-fetch that returns, \<open>fetchBalance\<close> returns the object
  \<^verbatim>\<open>{status: 'page_loaded', content_preview}\<close> whose preview is a prefix of the page text
  of at most 500 code units, whatever the elements of the page are.
\<close>

theorem raw_snapshot_is_bounded_prefix:
  assumes "loads env cookie"
    and "\<forall>j<length (recent_api_calls (resources env)).
           is_balance_api (recent_api_calls (resources env) ! j) \<longrightarrow>
           isl (fetch_json env j (call_name (recent_api_calls (resources env) ! j)))"
  shows "fst (fetchBalance env w)
           = Inr (JObj [(ascii ''status'', JStr (ascii ''page_loaded'')),
                        (ascii ''content_preview'', JStr (take 500 (body_innerText env)))])
         \<and> prefix (take 500 (body_innerText env)) (body_innerText env)
         \<and> length (take 500 (body_innerText env)) \<le> 500"
proof -
  from assms(2) have "first_response env 0 (recent_api_calls (resources env)) = None"
    by (simp add: first_response_None_iff)
  then show ?thesis
    by (simp add: fetchBalance_loaded [OF assms(1)] page_loaded_def take_is_prefix)
qed

text \<open>A page of 600 code units: the preview holds the first 500.\<close>

theorem raw_snapshot_is_bounded_prefix_witness:
  "loads long_page_env (ascii ''sid=abc; uid=42'')
   \<and> recent_api_calls (resources long_page_env) = []
   \<and> length (body_innerText long_page_env) = 600
   \<and> fst (fetchBalance long_page_env fresh_world)
       = Inr (JObj [(ascii ''status'', JStr (ascii ''page_loaded'')),
                    (ascii ''content_preview'', JStr (replicate 500 0x61))])"
proof -
  have h1: "loads long_page_env (ascii ''sid=abc; uid=42'')"
    by (simp add: long_page_env_def cookie_file_env_loads)
  have h2: "recent_api_calls (resources long_page_env) = []"
    by (simp add: long_page_env_def cookie_file_env_def recent_api_calls_def)
  have h3: "\<forall>j<length (recent_api_calls (resources long_page_env)).
           is_balance_api (recent_api_calls (resources long_page_env) ! j) \<longrightarrow>
           isl (fetch_json long_page_env j
                  (call_name (recent_api_calls (resources long_page_env) ! j)))"
    by (simp add: h2)
  have h4: "body_innerText long_page_env = replicate 600 0x61"
    by (simp add: long_page_env_def)
  from raw_snapshot_is_bounded_prefix [OF h1 h3, of fresh_world] h1 h2
  show ?thesis by (simp add: h4)
qed

text \<open>
  C6, as stated, fails: a page with no text, no element and no listed call gets the same
  \<open>page_loaded\<close> object as any other page, with an empty preview; the script has no
  result for an empty page.
\<close>

theorem empty_page_counterexample:
  "loads cookie_file_env (ascii ''sid=abc; uid=42'')
   \<and> body_innerText cookie_file_env = []
   \<and> document_elements cookie_file_env = []
   \<and> recent_api_calls (resources cookie_file_env) = []
   \<and> fst (fetchBalance cookie_file_env fresh_world)
       = Inr (JObj [(ascii ''status'', JStr (ascii ''page_loaded'')),
                    (ascii ''content_preview'', JStr [])])"
proof -
  have "recent_api_calls (resources cookie_file_env) = []"
    by (simp add: cookie_file_env_def recent_api_calls_def)
  then show ?thesis
    by (simp add: fetchBalance_loaded [OF cookie_file_env_loads] cookie_file_env_loads
        page_loaded_def) (simp add: cookie_file_env_def)
qed

text \<open>
  C6, amended. Once the page has loaded, the result of \<open>fetchBalance\<close> is one of two
  things: the outcome of a re-fetch that returned, of a listed call that passes the URL
  filter; or, when no such re-fetch returns, the \<open>page_loaded\<close> object with the first
  500 code units of the page text. A page with no text gets the second with the empty
  preview.
\<close>

theorem result_is_response_or_page_loaded:
  assumes "loads env cookie"
  shows
    "((\<exists>j<length (recent_api_calls (resources env)).
         is_balance_api (recent_api_calls (resources env) ! j)
         \<and> fst (fetchBalance env w)
             = fetch_json env j (call_name (recent_api_calls (resources env) ! j))
         \<and> \<not> isl (fst (fetchBalance env w)))
      \<or> ((\<forall>j<length (recent_api_calls (resources env)).
             is_balance_api (recent_api_calls (resources env) ! j) \<longrightarrow>
             isl (fetch_json env j (call_name (recent_api_calls (resources env) ! j))))
          \<and> fst (fetchBalance env w)
              = Inr (JObj [(ascii ''status'', JStr (ascii ''page_loaded'')),
                           (ascii ''content_preview'',
                            JStr (take 500 (body_innerText env)))])))
     \<and> ((\<forall>j<length (recent_api_calls (resources env)).
             is_balance_api (recent_api_calls (resources env) ! j) \<longrightarrow>
             isl (fetch_json env j (call_name (recent_api_calls (resources env) ! j))))
          \<and> body_innerText env = []
         \<longrightarrow> fst (fetchBalance env w)
              = Inr (JObj [(ascii ''status'', JStr (ascii ''page_loaded'')),
                           (ascii ''content_preview'', JStr [])]))"
proof (cases "first_response env 0 (recent_api_calls (resources env))")
  case None
  then show ?thesis
    using first_response_None_iff [of env 0 "recent_api_calls (resources env)"]
    by (simp add: fetchBalance_loaded [OF assms] page_loaded_def)
next
  case (Some r)
  from first_response_Some [OF Some] obtain j
    where j: "j < length (recent_api_calls (resources env))"
      "is_balance_api (recent_api_calls (resources env) ! j)"
      "fetch_json env j (call_name (recent_api_calls (resources env) ! j)) = Inr r"
    by auto
  have r: "fst (fetchBalance env w) = Inr r"
    by (simp add: fetchBalance_loaded [OF assms] Some)
  have "\<exists>j<length (recent_api_calls (resources env)).
         is_balance_api (recent_api_calls (resources env) ! j)
         \<and> fst (fetchBalance env w)
             = fetch_json env j (call_name (recent_api_calls (resources env) ! j))
         \<and> \<not> isl (fst (fetchBalance env w))"
    using j r by (intro exI [of _ j]) simp
  moreover have "\<not> (\<forall>j<length (recent_api_calls (resources env)).
             is_balance_api (recent_api_calls (resources env) ! j) \<longrightarrow>
             isl (fetch_json env j (call_name (recent_api_calls (resources env) ! j))))"
    using j by (intro notI) (auto dest!: spec [of _ j])
  ultimately show ?thesis by blast
qed

text \<open>The page with no text, and the page whose second re-fetch returns.\<close>

theorem result_is_response_or_page_loaded_witness:
  "loads cookie_file_env (ascii ''sid=abc; uid=42'')
   \<and> body_innerText cookie_file_env = []
   \<and> fst (fetchBalance cookie_file_env fresh_world)
       = Inr (JObj [(ascii ''status'', JStr (ascii ''page_loaded'')),
                    (ascii ''content_preview'', JStr [])])
   \<and> loads failing_then_working_env (ascii ''sid=abc; uid=42'')
   \<and> fst (fetchBalance failing_then_working_env fresh_world)
       = Inr (JObj [(ascii ''quota'', JNum 5)])"
proof -
  have h1: "loads cookie_file_env (ascii ''sid=abc; uid=42'')"
    by (rule cookie_file_env_loads)
  have h2: "recent_api_calls (resources cookie_file_env) = []"
    by (simp add: cookie_file_env_def recent_api_calls_def)
  have h3: "body_innerText cookie_file_env = []"
    by (simp add: cookie_file_env_def)
  from result_is_response_or_page_loaded [OF h1, of fresh_world] h2 h3
  have c1: "fst (fetchBalance cookie_file_env fresh_world)
       = Inr (JObj [(ascii ''status'', JStr (ascii ''page_loaded'')),
                    (ascii ''content_preview'', JStr [])])"
    by simp
  have h4: "loads failing_then_working_env (ascii ''sid=abc; uid=42'')"
    by (simp add: failing_then_working_env_def cookie_file_env_loads)
  have h5: "recent_api_calls (resources failing_then_working_env)
      = [ApiCall (ascii ''/api/balance'') (ascii ''fetch''),
         ApiCall (ascii ''/api/quota'') (ascii ''xhr'')]"
    by (simp add: failing_then_working_env_def)
  have h6: "fetch_json failing_then_working_env j u
      = (if j = 0 then Inl (Error (ascii ''Failed to fetch''))
         else Inr (JObj [(ascii ''quota'', JNum 5)]))" for j u
    by (simp add: failing_then_working_env_def)
  from result_is_response_or_page_loaded [OF h4, of fresh_world]
  have c2: "fst (fetchBalance failing_then_working_env fresh_world)
       = Inr (JObj [(ascii ''quota'', JNum 5)])"
    unfolding h5 h6 by (auto simp: All_less_Suc2 less_Suc_eq split: if_splits)
  from h1 h3 c1 h4 c2 show ?thesis by simp
qed






section \<open>The DOM scan\<close>




section \<open>The credential\<close>

text \<open>
  C4. With no credential file and the environment variable unset or empty, \<open>getCookie\<close>
  returns the empty string. Whenever \<open>getCookie\<close> returns a falsy value, \<open>fetchBalance\<close>
  throws the missing-cookie error and leaves the world as it was, and \<open>main\<close> ends with
  exit code 1 after two lines of banner and the error line: no launch of the browser,
  no write of the log, the log file untouched.
\<close>

theorem missing_credential_aborts_before_launch:
  "(cookieFile env = None \<and> (MINIMAX_COOKIE env = None \<or> MINIMAX_COOKIE env = Some [])
      \<longrightarrow> getCookie env = Inr (JStr []))
   \<and> ((\<exists>v. getCookie env = Inr v \<and> \<not> truthy v) \<longrightarrow>
        fetchBalance env w = (Inl (Error missing_cookie_message), w)
        \<and> fst (main env w) = 1
        \<and> events (snd (main env w))
            = events w @
              [ConsoleLog [banner],
               ConsoleLog [[0x65F6, 0x95F4] @ ascii '': ''
                           @ format_iso (toISOString env (clock_reads w))],
               ConsoleError [[0x9519, 0x8BEF] @ ascii '':'', missing_cookie_message],
               ProcessExit 1]
        \<and> log_content (snd (main env w)) = log_content w)"
proof (intro conjI impI)
  assume "cookieFile env = None \<and> (MINIMAX_COOKIE env = None \<or> MINIMAX_COOKIE env = Some [])"
  then show "getCookie env = Inr (JStr [])"
    by (auto simp: getCookie_def)
next
  assume "\<exists>v. getCookie env = Inr v \<and> \<not> truthy v"
  then obtain v where v: "getCookie env = Inr v" "\<not> truthy v" by blast
  have fb: "fetchBalance env w' = (Inl (Error missing_cookie_message), w')" for w'
    using v by (simp add: fetchBalance_def bind_io_def io_apply)
  show "fetchBalance env w = (Inl (Error missing_cookie_message), w)"
    by (rule fb)
  show "fst (main env w) = 1"
    by (simp add: main_def main_try_def formatDate_def bind_io_def then_io_def io_apply fb)
  show "events (snd (main env w))
            = events w @
              [ConsoleLog [banner],
               ConsoleLog [[0x65F6, 0x95F4] @ ascii '': ''
                           @ format_iso (toISOString env (clock_reads w))],
               ConsoleError [[0x9519, 0x8BEF] @ ascii '':'', missing_cookie_message],
               ProcessExit 1]"
    by (simp add: main_def main_try_def formatDate_def bind_io_def then_io_def io_apply fb)
  show "log_content (snd (main env w)) = log_content w"
    by (simp add: main_def main_try_def formatDate_def bind_io_def then_io_def io_apply fb)
qed

text \<open>The scenario of the specification: no file, no variable.\<close>

theorem missing_credential_aborts_before_launch_witness:
  "cookieFile no_credential_env = None
   \<and> MINIMAX_COOKIE no_credential_env = None
   \<and> getCookie no_credential_env = Inr (JStr [])
   \<and> fetchBalance no_credential_env fresh_world = (Inl (Error missing_cookie_message), fresh_world)
   \<and> fst (main no_credential_env fresh_world) = 1
   \<and> events (snd (main no_credential_env fresh_world))
       = [ConsoleLog [banner],
          ConsoleLog [[0x65F6, 0x95F4] @ ascii '': 2024-05-01 08:00:00 UTC''],
          ConsoleError [[0x9519, 0x8BEF] @ ascii '':'', missing_cookie_message],
          ProcessExit 1]
   \<and> Launch \<notin> set (events (snd (main no_credential_env fresh_world)))
   \<and> log_content (snd (main no_credential_env fresh_world)) = None"
proof -
  have h1: "cookieFile no_credential_env = None" by simp
  have h2: "MINIMAX_COOKIE no_credential_env = None" by simp
  note t = missing_credential_aborts_before_launch [of no_credential_env fresh_world]
  from t h1 h2 have g: "getCookie no_credential_env = Inr (JStr [])" by blast
  then have "\<exists>v. getCookie no_credential_env = Inr v \<and> \<not> truthy v" by simp
  with t have c: "fetchBalance no_credential_env fresh_world
        = (Inl (Error missing_cookie_message), fresh_world)"
    "fst (main no_credential_env fresh_world) = 1"
    "events (snd (main no_credential_env fresh_world))
            = events fresh_world @
              [ConsoleLog [banner],
               ConsoleLog [[0x65F6, 0x95F4] @ ascii '': ''
                    @ format_iso (toISOString no_credential_env (clock_reads fresh_world))],
               ConsoleError [[0x9519, 0x8BEF] @ ascii '':'', missing_cookie_message],
               ProcessExit 1]"
    "log_content (snd (main no_credential_env fresh_world)) = log_content fresh_world"
    by blast+
  have d: "format_iso (ascii ''2024-05-01T08:00:00.000Z'') = ascii ''2024-05-01 08:00:00 UTC''"
    by (simp add: format_iso_def ascii_def)
  from h1 h2 g c show ?thesis by (simp add: d) (simp add: ascii_def)
qed

text \<open>
  C7, as stated, fails: with a credential file that exists and does not parse,
  \<open>getCookie\<close> throws the error of the parse; the environment variable, which holds a
  cookie, is not used.
\<close>

theorem unparseable_file_counterexample:
  "cookieFile unparseable_file_env
     = Some (Inl (SyntaxError (ascii ''Unexpected end of JSON input'')))
   \<and> MINIMAX_COOKIE unparseable_file_env = Some (ascii ''sid=abc'')
   \<and> getCookie unparseable_file_env
       = Inl (SyntaxError (ascii ''Unexpected end of JSON input''))
   \<and> getCookie unparseable_file_env \<noteq> Inr (JStr (ascii ''sid=abc''))
   \<and> fetchBalance unparseable_file_env fresh_world
       = (Inl (SyntaxError (ascii ''Unexpected end of JSON input'')), fresh_world)"
  by (simp add: unparseable_file_env_def getCookie_def fetchBalance_def bind_io_def io_apply)

text \<open>
  C7, amended. The credential file decides whenever it exists: \<open>getCookie\<close> returns its
  \<open>cookie\<close> property whatever the environment variable holds, and throws when the file
  cannot be read or parsed (so does \<open>fetchBalance\<close>, before any effect). Only when the file
  does not exist is the environment variable used, the empty string standing for an unset
  one. When the value so found is falsy, \<open>fetchBalance\<close> throws the missing-cookie error.
\<close>

theorem credential_file_gates_environment:
  "(cookieFile env = Some (Inr cookieData) \<longrightarrow>
      getCookie env = get_property cookieData (ascii ''cookie''))
   \<and> (cookieFile env = Some (Inr (JObj props))
       \<and> map_of props (ascii ''cookie'') = Some (JStr c) \<longrightarrow>
      getCookie env = Inr (JStr c))
   \<and> (cookieFile env = Some (Inl e) \<longrightarrow>
      getCookie env = Inl e \<and> fetchBalance env w = (Inl e, w))
   \<and> (cookieFile env = None \<longrightarrow>
      getCookie env = Inr (JStr (case MINIMAX_COOKIE env of Some c \<Rightarrow> c | None \<Rightarrow> [])))
   \<and> ((\<exists>v. getCookie env = Inr v \<and> \<not> truthy v) \<longrightarrow>
      fetchBalance env w = (Inl (Error missing_cookie_message), w))"
  by (auto simp: getCookie_def fetchBalance_def bind_io_def io_apply split: option.split)

text \<open>Both sources present: the cookie of the file is returned.\<close>

theorem credential_file_gates_environment_witness:
  "cookieFile both_sources_env
     = Some (Inr (JObj [(ascii ''cookie'', JStr (ascii ''sid=abc; uid=42''))]))
   \<and> MINIMAX_COOKIE both_sources_env = Some (ascii ''sid=env'')
   \<and> getCookie both_sources_env = Inr (JStr (ascii ''sid=abc; uid=42''))
   \<and> cookieFile (both_sources_env\<lparr>cookieFile := None\<rparr>) = None
   \<and> getCookie (both_sources_env\<lparr>cookieFile := None\<rparr>) = Inr (JStr (ascii ''sid=env''))"
proof -
  have h1: "cookieFile both_sources_env
     = Some (Inr (JObj [(ascii ''cookie'', JStr (ascii ''sid=abc; uid=42''))]))"
    by (simp add: both_sources_env_def cookie_file_env_def)
  have h2: "map_of [(ascii ''cookie'', JStr (ascii ''sid=abc; uid=42''))] (ascii ''cookie'')
      = Some (JStr (ascii ''sid=abc; uid=42''))"
    by simp
  have h3: "MINIMAX_COOKIE both_sources_env = Some (ascii ''sid=env'')"
    by (simp add: both_sources_env_def)
  have h4: "cookieFile (both_sources_env\<lparr>cookieFile := None\<rparr>) = None" by simp
  note t1 = credential_file_gates_environment
    [of both_sources_env _ "[(ascii ''cookie'', JStr (ascii ''sid=abc; uid=42''))]"
        "ascii ''sid=abc; uid=42''"]
  from t1 h1 h2 have c1: "getCookie both_sources_env = Inr (JStr (ascii ''sid=abc; uid=42''))"
    by blast
  note t2 = credential_file_gates_environment [of "both_sources_env\<lparr>cookieFile := None\<rparr>"]
  from t2 h4 have "getCookie (both_sources_env\<lparr>cookieFile := None\<rparr>)
      = Inr (JStr (case MINIMAX_COOKIE (both_sources_env\<lparr>cookieFile := None\<rparr>) of
                     Some c \<Rightarrow> c | None \<Rightarrow> []))"
    by blast
  then have c2: "getCookie (both_sources_env\<lparr>cookieFile := None\<rparr>)
      = Inr (JStr (ascii ''sid=env''))"
    by (simp add: h3)
  from h1 h3 c1 h4 c2 show ?thesis by simp
qed

section \<open>Facts about the log and its publication\<close>

lemma format_iso_examples [simp]:
  "format_iso (ascii ''2024-05-01T08:00:00.000Z'') = ascii ''2024-05-01 08:00:00 UTC''"
  "format_iso (ascii ''2024-05-01T09:00:00.000Z'') = ascii ''2024-05-01 09:00:00 UTC''"
  by (simp_all add: format_iso_def ascii_def)

lemma publish_eq:
  "publish env date w = (Inr (), w\<lparr>events := events w @ publish_events env date\<rparr>)"
  by (simp add: publish_def publish_events_def exec_def try_catch_def then_io_def bind_io_def
      io_apply split: option.split)

lemma publish_events_failed:
  assumes "execSync env (ascii ''git add -A'') \<noteq> None
    \<or> execSync env (commit_command date) \<noteq> None
    \<or> execSync env (ascii ''git push origin main'') \<noteq> None"
  shows "\<exists>e. ConsoleLog [sync_failed_message, message e] \<in> set (publish_events env date)"
  using assms by (auto simp: publish_events_def split: option.split)

lemma saveToGitHub_eq:
  assumes "log_content w = None \<or> readFileSync env = None"
    and "content = newContent
           (render_record (format_iso (toISOString env (clock_reads w)))
              (JSON_stringify env balanceData))
           (case log_content w of None \<Rightarrow> [] | Some c \<Rightarrow> c)"
    and "writeFileSync env content = None"
  shows "saveToGitHub env balanceData w =
    (Inr (),
     w\<lparr>events := events w @
          [WriteFile (balanceFile env) content,
           ConsoleLog [saved_message @ balanceFile env]]
          @ publish_events env (format_iso (toISOString env (clock_reads w))),
       log_content := Some content,
       clock_reads := Suc (clock_reads w)\<rparr>)"
proof (cases "log_content w")
  case None
  with assms(2,3) show ?thesis
    by (simp add: saveToGitHub_def formatDate_def read_existing_def write_file_def publish_eq
        bind_io_def then_io_def io_apply)
next
  case (Some c)
  with assms(1) have "readFileSync env = None" by simp
  with Some assms(2,3) show ?thesis
    by (simp add: saveToGitHub_def formatDate_def read_existing_def write_file_def publish_eq
        bind_io_def then_io_def io_apply)
qed

section \<open>The log and its publication\<close>

text \<open>
  C8. In a run where \<open>fetchBalance\<close> returns, the log is read (or absent) and written
  without error, and one of the three \<^verbatim>\<open>git\<close> commands throws: \<open>main\<close> ends with exit
  code 0, its last line being the closing one; the log file holds the new content, which
  is the title, the new record, the separator and the prior content; and the failure of
  the publication is on the console.
\<close>

theorem publish_failure_is_not_fatal:
  assumes "fst (fetchBalance env w) = Inr balance"
    and "timestamp = format_iso (toISOString env (Suc (clock_reads w)))"
    and "date = format_iso (toISOString env (Suc (Suc (clock_reads w))))"
    and "content =
           newContent
             (render_record date
                (JSON_stringify env
                   (JObj [(ascii ''timestamp'', JStr timestamp), (ascii ''data'', balance)])))
             (case log_content w of None \<Rightarrow> [] | Some c \<Rightarrow> c)"
    and "log_content w = None \<or> readFileSync env = None"
    and "writeFileSync env content = None"
    and "execSync env (ascii ''git add -A'') \<noteq> None
         \<or> execSync env (commit_command date) \<noteq> None
         \<or> execSync env (ascii ''git push origin main'') \<noteq> None"
  shows "fst (main env w) = 0
    \<and> log_content (snd (main env w)) = Some content
    \<and> (\<exists>e. ConsoleLog [sync_failed_message, message e] \<in> set (events (snd (main env w))))
    \<and> last (events (snd (main env w))) = ConsoleLog [[0x5B8C, 0x6210] @ ascii ''!'']"
proof -
  from logs_only_fetchBalance [of env] obtain r evs
    where run: "\<And>w. fetchBalance env w = (r, w\<lparr>events := events w @ evs\<rparr>)"
    unfolding logs_only_def by blast
  with assms(1) have r: "r = Inr balance" by simp
  let ?w1 = "w\<lparr>events := events w @
                [ConsoleLog [banner],
                 ConsoleLog [[0x65F6, 0x95F4] @ ascii '': ''
                             @ format_iso (toISOString env (clock_reads w))]] @ evs
                @ [ConsoleLog [[0x4F59, 0x989D, 0x4FE1, 0x606F] @ ascii '':'',
                               JSON_stringify env balance]],
              clock_reads := Suc (Suc (clock_reads w))\<rparr>"
  let ?data = "JObj [(ascii ''timestamp'', JStr timestamp), (ascii ''data'', balance)]"
  have save: "saveToGitHub env ?data ?w1 =
    (Inr (),
     ?w1\<lparr>events := events ?w1 @
          [WriteFile (balanceFile env) content,
           ConsoleLog [saved_message @ balanceFile env]]
          @ publish_events env (format_iso (toISOString env (clock_reads ?w1))),
       log_content := Some content,
       clock_reads := Suc (clock_reads ?w1)\<rparr>)"
    using assms(3,4,5,6) by (intro saveToGitHub_eq) simp_all
  have m: "main env w =
    (0, ?w1\<lparr>events := events ?w1 @
          [WriteFile (balanceFile env) content,
           ConsoleLog [saved_message @ balanceFile env]]
          @ publish_events env date
          @ [ConsoleLog [[0x5B8C, 0x6210] @ ascii ''!'']],
       log_content := Some content,
       clock_reads := Suc (Suc (Suc (clock_reads w)))\<rparr>)"
    using save
    by (simp add: main_def main_try_def formatDate_def bind_io_def then_io_def io_apply run r
        assms(2,3))
  from publish_events_failed [OF assms(7)] obtain e
    where "ConsoleLog [sync_failed_message, message e] \<in> set (publish_events env date)"
    by blast
  then have "ConsoleLog [sync_failed_message, message e] \<in> set (events (snd (main env w)))"
    by (simp add: m)
  then show ?thesis
    by (auto simp: m)
qed

text \<open>The page loads, the log is written, the push fails.\<close>

theorem publish_failure_is_not_fatal_witness:
  "fst (fetchBalance offline_env fresh_world) = Inr (page_loaded [])
   \<and> log_content fresh_world = None
   \<and> execSync offline_env (ascii ''git push origin main'')
       = Some (Error (ascii ''Command failed: git push origin main''))
   \<and> fst (main offline_env fresh_world) = 0
   \<and> log_content (snd (main offline_env fresh_world))
       = Some (title @ [0x0A, 0x0A]
               @ render_record (ascii ''2024-05-01 09:00:00 UTC'') (ascii ''{}'')
               @ separator)
   \<and> (\<exists>e. ConsoleLog [sync_failed_message, message e]
          \<in> set (events (snd (main offline_env fresh_world))))"
proof -
  have l: "loads offline_env (ascii ''sid=abc; uid=42'')"
    by (simp add: loads_def getCookie_def offline_env_def cookie_file_env_def)
  have c: "recent_api_calls (resources offline_env) = []"
    by (simp add: offline_env_def cookie_file_env_def recent_api_calls_def)
  have h1: "fst (fetchBalance offline_env fresh_world) = Inr (page_loaded [])"
    by (simp add: fetchBalance_loaded [OF l] c) (simp add: offline_env_def cookie_file_env_def)
  have h5: "log_content fresh_world = None \<or> readFileSync offline_env = None" by simp
  have d: "format_iso (toISOString offline_env (Suc k)) = ascii ''2024-05-01 09:00:00 UTC''"
    for k
    by (simp add: offline_env_def cookie_file_env_def)
  have h6: "writeFileSync offline_env content = None" for content
    by (simp add: offline_env_def cookie_file_env_def)
  have p: "execSync offline_env (ascii ''git push origin main'')
       = Some (Error (ascii ''Command failed: git push origin main''))"
    by (simp add: offline_env_def)
  then have h7: "execSync offline_env (ascii ''git add -A'') \<noteq> None
         \<or> execSync offline_env
              (commit_command (format_iso (toISOString offline_env
                 (Suc (Suc (clock_reads fresh_world)))))) \<noteq> None
         \<or> execSync offline_env (ascii ''git push origin main'') \<noteq> None"
    by simp
  have s: "JSON_stringify offline_env v = ascii ''{}''" for v
    by (simp add: offline_env_def cookie_file_env_def)
  from publish_failure_is_not_fatal [OF h1 refl refl refl h5 h6 h7] h1 p
  show ?thesis
    by (simp add: d s newContent_def)
qed

text \<open>
  C9, as stated, fails: what is written is not the new section, the separator and the
  prior content alone. The first write to an absent log already starts with the title
  line of the document, which comes before the section.
\<close>

theorem log_write_counterexample:
  "log_content fresh_world = None
   \<and> log_content (snd (saveToGitHub no_credential_env (JObj []) fresh_world))
       = Some (title @ [0x0A, 0x0A]
               @ render_record (ascii ''2024-05-01 08:00:00 UTC'') (ascii ''{}'')
               @ separator)
   \<and> log_content (snd (saveToGitHub no_credential_env (JObj []) fresh_world))
       \<noteq> Some (render_record (ascii ''2024-05-01 08:00:00 UTC'') (ascii ''{}'')
                @ separator @ [])"
proof -
  have h1: "log_content fresh_world = None \<or> readFileSync no_credential_env = None" by simp
  have w: "log_content (snd (saveToGitHub no_credential_env (JObj []) fresh_world))
       = Some (title @ [0x0A, 0x0A]
               @ render_record (ascii ''2024-05-01 08:00:00 UTC'') (ascii ''{}'')
               @ separator)"
    by (simp add: saveToGitHub_eq [OF h1 refl] newContent_def)
  have n: "title @ [0x0A, 0x0A]
               @ render_record (ascii ''2024-05-01 08:00:00 UTC'') (ascii ''{}'')
               @ separator
       \<noteq> render_record (ascii ''2024-05-01 08:00:00 UTC'') (ascii ''{}'') @ separator @ []"
    by (simp add: title_def render_record_def ascii_def)
  from w n show ?thesis by simp
qed

text \<open>
  C9, amended. When the log is read (or absent) and written without error,
  \<open>saveToGitHub\<close> writes the title line, an empty line, the new section, the separator and
  then the prior content, unchanged. After two such runs the log holds the title and the
  section of the second run, the separator, and then all that the first run wrote: its
  title, its section, the separator and the content from before both runs.
\<close>

theorem log_write_prepends_title_and_record:
  assumes "log_content w = None \<or> readFileSync env1 = None"
    and "prior = (case log_content w of None \<Rightarrow> [] | Some c \<Rightarrow> c)"
    and "section1 = render_record (format_iso (toISOString env1 (clock_reads w)))
                      (JSON_stringify env1 data1)"
    and "writeFileSync env1 (title @ [0x0A, 0x0A] @ section1 @ separator @ prior) = None"
    and "w1 = snd (saveToGitHub env1 data1 w)"
    and "readFileSync env2 = None"
    and "section2 = render_record (format_iso (toISOString env2 (Suc (clock_reads w))))
                      (JSON_stringify env2 data2)"
    and "writeFileSync env2
           (title @ [0x0A, 0x0A] @ section2 @ separator
            @ title @ [0x0A, 0x0A] @ section1 @ separator @ prior) = None"
  shows "log_content w1 = Some (title @ [0x0A, 0x0A] @ section1 @ separator @ prior)
    \<and> log_content (snd (saveToGitHub env2 data2 w1))
        = Some (title @ [0x0A, 0x0A] @ section2 @ separator
                @ title @ [0x0A, 0x0A] @ section1 @ separator @ prior)"
proof -
  have first: "saveToGitHub env1 data1 w =
    (Inr (),
     w\<lparr>events := events w @
          [WriteFile (balanceFile env1) (title @ [0x0A, 0x0A] @ section1 @ separator @ prior),
           ConsoleLog [saved_message @ balanceFile env1]]
          @ publish_events env1 (format_iso (toISOString env1 (clock_reads w))),
       log_content := Some (title @ [0x0A, 0x0A] @ section1 @ separator @ prior),
       clock_reads := Suc (clock_reads w)\<rparr>)"
    using assms(2,3,4) by (intro saveToGitHub_eq [OF assms(1)]) (simp_all add: newContent_def)
  then have w1: "log_content w1 = Some (title @ [0x0A, 0x0A] @ section1 @ separator @ prior)"
    "clock_reads w1 = Suc (clock_reads w)"
    by (simp_all add: assms(5))
  have r2: "log_content w1 = None \<or> readFileSync env2 = None"
    using assms(6) by simp
  have "saveToGitHub env2 data2 w1 =
    (Inr (),
     w1\<lparr>events := events w1 @
          [WriteFile (balanceFile env2)
             (title @ [0x0A, 0x0A] @ section2 @ separator
              @ title @ [0x0A, 0x0A] @ section1 @ separator @ prior),
           ConsoleLog [saved_message @ balanceFile env2]]
          @ publish_events env2 (format_iso (toISOString env2 (clock_reads w1))),
       log_content := Some (title @ [0x0A, 0x0A] @ section2 @ separator
              @ title @ [0x0A, 0x0A] @ section1 @ separator @ prior),
       clock_reads := Suc (clock_reads w1)\<rparr>)"
    using assms(7,8) w1 by (intro saveToGitHub_eq [OF r2]) (simp_all add: newContent_def)
  with w1 show ?thesis by simp
qed

text \<open>Two runs on an absent log, an hour apart: the later section comes first.\<close>

theorem log_write_prepends_title_and_record_witness:
  "log_content fresh_world = None
   \<and> log_content (snd (saveToGitHub no_credential_env (JObj [])
                        (snd (saveToGitHub no_credential_env (JObj []) fresh_world))))
       = Some (title @ [0x0A, 0x0A]
               @ render_record (ascii ''2024-05-01 09:00:00 UTC'') (ascii ''{}'')
               @ separator
               @ title @ [0x0A, 0x0A]
               @ render_record (ascii ''2024-05-01 08:00:00 UTC'') (ascii ''{}'')
               @ separator)"
proof -
  have h1: "log_content fresh_world = None \<or> readFileSync no_credential_env = None" by simp
  have h4: "writeFileSync no_credential_env content = None" for content by simp
  have h6: "readFileSync no_credential_env = None" by simp
  from log_write_prepends_title_and_record
    [OF h1 refl refl h4 refl h6 refl h4, of "JObj []" "JObj []"]
  show ?thesis by simp
qed

end
